theory Spec2Isabelle
  imports Complex_Main "HOL-Library.Monad_Syntax"
begin

section \<open>The Boombox scene script\<close>

text \<open>
  The script \<^verbatim>\<open>scripts/script.js\<close> of the Boombox project runs once when the effect is
  loaded. It looks five scene objects up by name, builds two looping animations and
  binds them to scale channels, and subscribes one callback to each of the pan, pinch
  and rotate gesture streams. Everything it calls belongs to the host (the modules
  \<^verbatim>\<open>Scene\<close>, \<^verbatim>\<open>Animation\<close> and \<^verbatim>\<open>TouchGestures\<close>); the host's state is written out here
  as a record, each host call is a function on that record, and the script and its three
  callbacks are translated line by line on top of these calls.
\<close>

subsection \<open>Numbers and signals\<close>

text \<open>
  A JavaScript number is taken as a real number: the script does no arithmetic of its
  own, it only builds signal expressions with \<^verbatim>\<open>mul\<close> and \<^verbatim>\<open>add\<close>, so rounding is the
  host's affair. \<^verbatim>\<open>loopCount\<close> is a number or \<^verbatim>\<open>Infinity\<close>.
\<close>

type_synonym num = real

datatype loop_count = Count num | Infinity

record driver_params =
  durationMilliseconds :: num
  loopCount :: loop_count
  mirror :: bool

text \<open>The two sampler factories the script uses, each with its start and end value.\<close>

datatype sampler = EaseInQuint num num | EaseOutElastic num num

fun sampler_from :: "sampler \<Rightarrow> num" where
  "sampler_from (EaseInQuint a b) = a"
| "sampler_from (EaseOutElastic a b) = a"

fun sampler_to :: "sampler \<Rightarrow> num" where
  "sampler_to (EaseInQuint a b) = b"
| "sampler_to (EaseOutElastic a b) = b"

text \<open>
  A scalar signal is an expression over host sources: a constant, a source the host
  feeds (the \<^verbatim>\<open>scale\<close> or \<^verbatim>\<open>rotation\<close> of a gesture, numbered by the host), the output of
  \<^verbatim>\<open>Animation.animate(driver, sampler)\<close> with the driver given by its handle, and the
  results of \<^verbatim>\<open>a.mul(b)\<close> and \<^verbatim>\<open>a.add(b)\<close>.
\<close>

datatype signal =
  Val num
| Src nat
| Animate nat sampler
| Mul signal signal
| Add signal signal

text \<open>
  What the host's signals are worth at one instant: the value of every source and of
  every animation. The value of an expression follows from it.
\<close>

record valuation =
  src :: "nat \<Rightarrow> num"
  anim :: "nat \<Rightarrow> sampler \<Rightarrow> num"

fun value_of :: "valuation \<Rightarrow> signal \<Rightarrow> num" where
  "value_of v (Val c) = c"
| "value_of v (Src i) = src v i"
| "value_of v (Animate d s) = anim v d s"
| "value_of v (Mul a b) = value_of v a * value_of v b"
| "value_of v (Add a b) = value_of v a + value_of v b"

subsection \<open>Transforms, gestures and snapshots\<close>

text \<open>
  The nine channels of a transform. The host calls the position channels \<^verbatim>\<open>x\<close>, \<^verbatim>\<open>y\<close>
  and \<^verbatim>\<open>z\<close>; they are \<open>posX\<close>, \<open>posY\<close> and \<open>posZ\<close> here.
\<close>

record transform =
  posX :: signal
  posY :: signal
  posZ :: signal
  scaleX :: signal
  scaleY :: signal
  scaleZ :: signal
  rotationX :: signal
  rotationY :: signal
  rotationZ :: signal

datatype property =
  PosX | PosY | PosZ | ScaleX | ScaleY | ScaleZ | RotationX | RotationY | RotationZ

fun get_prop :: "property \<Rightarrow> transform \<Rightarrow> signal" where
  "get_prop PosX t = posX t"
| "get_prop PosY t = posY t"
| "get_prop PosZ t = posZ t"
| "get_prop ScaleX t = scaleX t"
| "get_prop ScaleY t = scaleY t"
| "get_prop ScaleZ t = scaleZ t"
| "get_prop RotationX t = rotationX t"
| "get_prop RotationY t = rotationY t"
| "get_prop RotationZ t = rotationZ t"

fun set_prop :: "property \<Rightarrow> signal \<Rightarrow> transform \<Rightarrow> transform" where
  "set_prop PosX s t = t\<lparr>posX := s\<rparr>"
| "set_prop PosY s t = t\<lparr>posY := s\<rparr>"
| "set_prop PosZ s t = t\<lparr>posZ := s\<rparr>"
| "set_prop ScaleX s t = t\<lparr>scaleX := s\<rparr>"
| "set_prop ScaleY s t = t\<lparr>scaleY := s\<rparr>"
| "set_prop ScaleZ s t = t\<lparr>scaleZ := s\<rparr>"
| "set_prop RotationX s t = t\<lparr>rotationX := s\<rparr>"
| "set_prop RotationY s t = t\<lparr>rotationY := s\<rparr>"
| "set_prop RotationZ s t = t\<lparr>rotationZ := s\<rparr>"

text \<open>
  Reading \<^verbatim>\<open>placerTransform.scaleX\<close> gives the signal of that channel of that object.
\<close>

datatype prop_signal = Prop string property

type_synonym point2d = "signal \<times> signal"

text \<open>The fields of the three gestures that the callbacks read.\<close>

record pan_gesture =
  location :: point2d
  state :: string

record pinch_gesture =
  scale :: signal

record rotate_gesture =
  rotation :: signal

text \<open>
  The snapshot dictionaries, with the keys the script gives them. At the subscription
  the entries are signals; in the callback they are the numbers sampled from them.
\<close>

record 'a pinch_snapshot =
  lastScaleX :: 'a
  lastScaleY :: 'a
  lastScaleZ :: 'a

record 'a rotate_snapshot =
  lastRotationY :: 'a

subsection \<open>The host\<close>

text \<open>
  A subscription keeps what the callback's closure captured (the handle of the plane
  tracker, or of the placer's transform) and the snapshot dictionary passed with it.
\<close>

datatype subscription =
  PanSub string
| PinchSub string "prop_signal pinch_snapshot"
| RotateSub string "prop_signal rotate_snapshot"

datatype call =
  CFind string
| CTimeDriver driver_params
| CStart nat
| CSampler sampler
| CAnimate nat sampler
| CAssign string property signal
| CTrackPoint string point2d string
| CSubscribe subscription

text \<open>
  What the host keeps for a subscription besides the subscription itself: nothing for a
  plain \<^verbatim>\<open>subscribe\<close>, the values of the snapshot for a \<^verbatim>\<open>subscribeWithSnapshot\<close>.
\<close>

datatype capture =
  NoCapture
| PinchCapture "num pinch_snapshot"
| RotateCapture "num rotate_snapshot"

text \<open>
  The host's state: the names of the objects in the scene, the transform of each
  object (a store from names to transforms), the time drivers created so far with their
  running flag (a driver's handle is its index), the point each plane tracker was last
  told to track, the subscriptions and what was captured for each (two lists of the same
  length), the host calls made so far, in order, and what the host's signals are worth
  at the present instant.
\<close>

record host =
  objects :: "string list"
  transforms :: "string \<Rightarrow> transform"
  drivers :: "(driver_params \<times> bool) list"
  trackedPoint :: "string \<Rightarrow> (point2d \<times> string) option"
  subscriptions :: "subscription list"
  captured :: "capture list"
  calls :: "call list"
  now :: valuation

text \<open>
  \<^verbatim>\<open>sceneRoot.find(name)\<close>: the object's handle (its name), or no result when the scene
  has no such object; the script then stops, since it has no handler of its own.
\<close>

definition find_obj :: "string \<Rightarrow> host \<Rightarrow> (string \<times> host) option" where
  "find_obj name h =
     (if name \<in> set (objects h) then Some (name, h\<lparr>calls := calls h @ [CFind name]\<rparr>)
      else None)"

definition timeDriver :: "driver_params \<Rightarrow> host \<Rightarrow> nat \<times> host" where
  "timeDriver p h =
     (length (drivers h),
      h\<lparr>drivers := drivers h @ [(p, False)], calls := calls h @ [CTimeDriver p]\<rparr>)"

text \<open>
  \<^verbatim>\<open>driver.start()\<close>. A handle comes from \<open>timeDriver\<close>, so it is in range; the list
  update leaves the list alone otherwise.
\<close>

definition start :: "nat \<Rightarrow> host \<Rightarrow> host" where
  "start d h =
     h\<lparr>drivers := (drivers h)[d := (fst (drivers h ! d), True)],
       calls := calls h @ [CStart d]\<rparr>"

definition easeInQuint :: "num \<Rightarrow> num \<Rightarrow> host \<Rightarrow> sampler \<times> host" where
  "easeInQuint a b h = (EaseInQuint a b, h\<lparr>calls := calls h @ [CSampler (EaseInQuint a b)]\<rparr>)"

definition easeOutElastic :: "num \<Rightarrow> num \<Rightarrow> host \<Rightarrow> sampler \<times> host" where
  "easeOutElastic a b h =
     (EaseOutElastic a b, h\<lparr>calls := calls h @ [CSampler (EaseOutElastic a b)]\<rparr>)"

definition animate :: "nat \<Rightarrow> sampler \<Rightarrow> host \<Rightarrow> signal \<times> host" where
  "animate d s h = (Animate d s, h\<lparr>calls := calls h @ [CAnimate d s]\<rparr>)"

text \<open>The assignment \<^verbatim>\<open>transform.channel = signal\<close> on the transform of object \<open>t\<close>.\<close>

definition assign :: "string \<Rightarrow> property \<Rightarrow> signal \<Rightarrow> host \<Rightarrow> host" where
  "assign t p s h =
     h\<lparr>transforms := (transforms h)(t := set_prop p s (transforms h t)),
       calls := calls h @ [CAssign t p s]\<rparr>"

text \<open>
  \<^verbatim>\<open>planeTracker.trackPoint(location, state)\<close>: the script's comment has it trigger a new
  plane detection that moves the plane tracker to the point given.
\<close>

definition trackPoint :: "string \<Rightarrow> point2d \<Rightarrow> string \<Rightarrow> host \<Rightarrow> host" where
  "trackPoint pt loc st h =
     h\<lparr>trackedPoint := (trackedPoint h)(pt \<mapsto> (loc, st)),
       calls := calls h @ [CTrackPoint pt loc st]\<rparr>"

text \<open>\<^verbatim>\<open>eventSource.subscribe(callback)\<close>: a subscription with no snapshot.\<close>

definition subscribe :: "subscription \<Rightarrow> host \<Rightarrow> host" where
  "subscribe s h =
     h\<lparr>subscriptions := subscriptions h @ [s], captured := captured h @ [NoCapture],
       calls := calls h @ [CSubscribe s]\<rparr>"

text \<open>
  Reading the signal \<^verbatim>\<open>transform.channel\<close> in a state of the host gives what is bound to
  that channel there.
\<close>

fun read_prop :: "host \<Rightarrow> prop_signal \<Rightarrow> signal" where
  "read_prop h (Prop t p) = get_prop p (transforms h t)"

text \<open>
  Modelled from the spec: \<^verbatim>\<open>subscribeWithSnapshot\<close> is a host call, and the moment at which
  the host takes the values of the snapshot is not in the repository. The spec's
  glossary has it: a snapshot is a set of signal values captured at the moment of event
  subscription, made available to the event callback. So \<open>capture_of\<close> takes the value
  of each signal of the dictionary in the state and at the instant of the subscription,
  and \<open>subscribeWithSnapshot\<close> keeps these values with the subscription.
\<close>

fun capture_of :: "host \<Rightarrow> subscription \<Rightarrow> capture" where
  "capture_of h (PanSub pt) = NoCapture"
| "capture_of h (PinchSub t d) =
     PinchCapture
       \<lparr>lastScaleX = value_of (now h) (read_prop h (lastScaleX d)),
        lastScaleY = value_of (now h) (read_prop h (lastScaleY d)),
        lastScaleZ = value_of (now h) (read_prop h (lastScaleZ d))\<rparr>"
| "capture_of h (RotateSub t d) =
     RotateCapture \<lparr>lastRotationY = value_of (now h) (read_prop h (lastRotationY d))\<rparr>"

text \<open>
  Modelled from the spec: \<^verbatim>\<open>eventSource.subscribeWithSnapshot(dictionary, callback)\<close>,
  with the snapshot captured at the moment of subscription as the glossary says.
\<close>

definition subscribeWithSnapshot :: "subscription \<Rightarrow> host \<Rightarrow> host" where
  "subscribeWithSnapshot s h =
     h\<lparr>subscriptions := subscriptions h @ [s], captured := captured h @ [capture_of h s],
       calls := calls h @ [CSubscribe s]\<rparr>"

subsection \<open>The callbacks\<close>

text \<open>Lines 140 to 147: the pan callback, closed over \<^verbatim>\<open>planeTracker\<close>.\<close>

definition pan_callback :: "string \<Rightarrow> pan_gesture \<Rightarrow> host \<Rightarrow> host" where
  "pan_callback planeTracker gesture h =
     trackPoint planeTracker (location gesture) (state gesture) h"

text \<open>Lines 178 to 187: the pinch callback, closed over \<^verbatim>\<open>placerTransform\<close>.\<close>

definition pinch_callback ::
  "string \<Rightarrow> pinch_gesture \<Rightarrow> num pinch_snapshot \<Rightarrow> host \<Rightarrow> host" where
  "pinch_callback placerTransform gesture snapshot h =
     (let h1 = assign placerTransform ScaleX (Mul (scale gesture) (Val (lastScaleX snapshot))) h;
          h2 = assign placerTransform ScaleY (Mul (scale gesture) (Val (lastScaleY snapshot))) h1
      in assign placerTransform ScaleZ (Mul (scale gesture) (Val (lastScaleZ snapshot))) h2)"

text \<open>Lines 203 to 207: the rotate callback, closed over \<^verbatim>\<open>placerTransform\<close>.\<close>

definition rotate_callback ::
  "string \<Rightarrow> rotate_gesture \<Rightarrow> num rotate_snapshot \<Rightarrow> host \<Rightarrow> host" where
  "rotate_callback placerTransform gesture snapshot h =
     (let correctRotation = Mul (rotation gesture) (Val (- 1))
      in assign placerTransform RotationY
           (Add correctRotation (Val (lastRotationY snapshot))) h)"

subsection \<open>The script\<close>

definition baseDriverParameters :: driver_params where
  "baseDriverParameters =
     \<lparr>durationMilliseconds = 400, loopCount = Infinity, mirror = True\<rparr>"

definition speakerDriverParameters :: driver_params where
  "speakerDriverParameters =
     \<lparr>durationMilliseconds = 200, loopCount = Infinity, mirror = True\<rparr>"

text \<open>
  Lines 25 to 207, in the order of the file. A failed lookup ends the script. Reading
  \<^verbatim>\<open>object.transform\<close> gives the handle of the object's transform, which is the object's
  name here.
\<close>

definition script :: "host \<Rightarrow> host option" where
  "script h0 = do {
     (base, h1) \<leftarrow> find_obj ''base_jnt'' h0;
     (speakerLeft, h2) \<leftarrow> find_obj ''speaker_left_jnt'' h1;
     (speakerRight, h3) \<leftarrow> find_obj ''speaker_right_jnt'' h2;
     (planeTracker, h4) \<leftarrow> find_obj ''planeTracker0'' h3;
     (placer, h5) \<leftarrow> find_obj ''placer'' h4;
     Some (
       let (baseDriver, h6) = timeDriver baseDriverParameters h5;
           h7 = start baseDriver h6;
           (speakerDriver, h8) = timeDriver speakerDriverParameters h7;
           h9 = start speakerDriver h8;
           (baseSampler, h10) = easeInQuint 0.9 1 h9;
           (speakerSampler, h11) = easeOutElastic 0.7 0.85 h10;
           (baseAnimation, h12) = animate baseDriver baseSampler h11;
           (speakerAnimation, h13) = animate speakerDriver speakerSampler h12;
           baseTransform = base;
           h14 = assign baseTransform ScaleX baseAnimation h13;
           h15 = assign baseTransform ScaleY baseAnimation h14;
           h16 = assign baseTransform ScaleZ baseAnimation h15;
           speakerLeftTransform = speakerLeft;
           h17 = assign speakerLeftTransform ScaleX speakerAnimation h16;
           h18 = assign speakerLeftTransform ScaleY speakerAnimation h17;
           h19 = assign speakerLeftTransform ScaleZ speakerAnimation h18;
           speakerRightTransform = speakerRight;
           h20 = assign speakerRightTransform ScaleX speakerAnimation h19;
           h21 = assign speakerRightTransform ScaleY speakerAnimation h20;
           h22 = assign speakerRightTransform ScaleZ speakerAnimation h21;
           h23 = subscribe (PanSub planeTracker) h22;
           placerTransform = placer;
           h24 = subscribeWithSnapshot (PinchSub placerTransform
                   \<lparr>lastScaleX = Prop placerTransform ScaleX,
                    lastScaleY = Prop placerTransform ScaleY,
                    lastScaleZ = Prop placerTransform ScaleZ\<rparr>) h23
       in subscribeWithSnapshot (RotateSub placerTransform
                   \<lparr>lastRotationY = Prop placerTransform RotationY\<rparr>) h24)
   }"

subsection \<open>Gesture events\<close>

datatype event = Pan pan_gesture | Pinch pinch_gesture | Rotate rotate_gesture

text \<open>
  Modelled from the spec: the dispatch of gesture events is the host's. One
  subscription meets one event: the callback runs when the event is of the
  subscription's stream, with the gesture and, for pinch and rotate, with the snapshot
  captured at the subscription; nothing happens otherwise.
\<close>

fun fire :: "event \<Rightarrow> subscription \<times> capture \<Rightarrow> host \<Rightarrow> host" where
  "fire (Pan g) (PanSub pt, c) h = pan_callback pt g h"
| "fire (Pinch g) (PinchSub t d, PinchCapture snapshot) h = pinch_callback t g snapshot h"
| "fire (Rotate g) (RotateSub t d, RotateCapture snapshot) h = rotate_callback t g snapshot h"
| "fire e sc h = h"

text \<open>
  An event arrives at an instant, with the values the host's signals have then; the
  host hands it to every subscription, in the order of subscription.
\<close>

definition deliver :: "valuation \<Rightarrow> event \<Rightarrow> host \<Rightarrow> host" where
  "deliver v e h = fold (fire e) (zip (subscriptions h) (captured h)) (h\<lparr>now := v\<rparr>)"

text \<open>A session after load: events, each with the signal values of its instant.\<close>

fun run :: "(valuation \<times> event) list \<Rightarrow> host \<Rightarrow> host" where
  "run [] h = h"
| "run ((v, e) # es) h = run es (deliver v e h)"

text \<open>
  The host as the script finds it: a scene, nothing created or subscribed yet, and the
  values its signals have at the instant of the load.
\<close>

definition boot :: "string list \<Rightarrow> (string \<Rightarrow> transform) \<Rightarrow> valuation \<Rightarrow> host" where
  "boot objs trs v0 =
     \<lparr>objects = objs, transforms = trs, drivers = [], trackedPoint = (\<lambda>_. None),
      subscriptions = [], captured = [], calls = [], now = v0\<rparr>"

subsection \<open>The host's animation engine\<close>

text \<open>
  A function of time that stays between \<open>lo\<close> and \<open>hi\<close> and repeats after \<open>p\<close>.
\<close>

definition periodic_within :: "(real \<Rightarrow> num) \<Rightarrow> num \<Rightarrow> num \<Rightarrow> num \<Rightarrow> bool" where
  "periodic_within f lo hi p \<longleftrightarrow> (\<forall>t. lo \<le> f t \<and> f t \<le> hi \<and> f (t + p) = f t)"

text \<open>
  Modelled from the spec: the easing curves are the host's and are not in the
  repository. The spec's glossary describes a sampler as an easing function that maps
  progress to an output range, the range given by the start and the end value. An
  easing curve is therefore a function of the progress that is 0 at progress 0, 1 at
  progress 1 and between 0 and 1 for a progress between 0 and 1; which curve the host
  uses for ease-in-quint and for ease-out-elastic is left open.
\<close>

typedef easing =
  "{f :: real \<Rightarrow> real. f 0 = 0 \<and> f 1 = 1 \<and> (\<forall>p. 0 \<le> p \<and> p \<le> 1 \<longrightarrow> 0 \<le> f p \<and> f p \<le> 1)}"
  by (rule exI [of _ "\<lambda>p. p"]) simp

setup_lifting type_definition_easing

text \<open>
  Modelled from the spec: a sampler maps the progress to its output range, from the
  start value at progress 0 to the end value at progress 1, along its easing curve.
\<close>

definition sampler_value :: "easing \<Rightarrow> sampler \<Rightarrow> real \<Rightarrow> num" where
  "sampler_value c s p =
     sampler_from s + (sampler_to s - sampler_from s) * Rep_easing c p"

text \<open>
  Modelled from the spec: a driver is a time source with a repeating progress value,
  and the spec gives the two drivers of the script their duration as their period. In a
  loop the progress runs from 0 to 1 over the duration; when the loop is mirrored it
  runs from 0 to 1 and back to 0 within the duration, so that, as the script's comment
  on \<^verbatim>\<open>mirror\<close> says, the animation has returned to its starting value when the loop is
  finished. Time is in milliseconds since the driver was started.
\<close>

definition loop_progress :: "driver_params \<Rightarrow> real \<Rightarrow> real" where
  "loop_progress p t =
     (let u = frac (t / durationMilliseconds p)
      in if mirror p then 1 - \<bar>2 * u - 1\<bar> else u)"

text \<open>
  Modelled from the spec: the progress of a driver. A driver that was not started rests
  at 0; a driver with an infinite loop count loops forever; one with a finite count
  stops after that many loops, where the last loop ended.
\<close>

definition driver_progress :: "driver_params \<times> bool \<Rightarrow> real \<Rightarrow> real" where
  "driver_progress d t =
     (if \<not> snd d then 0
      else case loopCount (fst d) of
             Infinity \<Rightarrow> loop_progress (fst d) t
           | Count n \<Rightarrow>
               if t < n * durationMilliseconds (fst d) then loop_progress (fst d) t
               else if mirror (fst d) then 0 else 1)"

text \<open>
  Modelled from the spec: what the host's signals are worth \<open>t\<close> milliseconds after the
  load, for a host with the easing curves \<open>curve\<close>, the source values \<open>sources\<close> and the
  drivers \<open>ds\<close>: an animation is the value of its sampler at the progress of its driver.
\<close>

definition host_signals ::
  "(sampler \<Rightarrow> easing) \<Rightarrow> (real \<Rightarrow> nat \<Rightarrow> num) \<Rightarrow> (driver_params \<times> bool) list \<Rightarrow> real
     \<Rightarrow> valuation" where
  "host_signals curve sources ds t =
     \<lparr>src = sources t,
      anim = (\<lambda>d s. if d < length ds then sampler_value (curve s) s (driver_progress (ds ! d) t)
                     else sampler_from s)\<rparr>"

subsection \<open>A sample session\<close>

text \<open>
  A scene with the five objects the script asks for, every transform at scale one and
  everything else at zero, loaded at an instant at which the host's sources are all zero
  and its animations are at their start values; and a host whose easing curves are all
  the straight line.
\<close>

definition demo_transform :: transform where
  "demo_transform =
     \<lparr>posX = Val 0, posY = Val 0, posZ = Val 0,
      scaleX = Val 1, scaleY = Val 1, scaleZ = Val 1,
      rotationX = Val 0, rotationY = Val 0, rotationZ = Val 0\<rparr>"

definition demo_valuation :: valuation where
  "demo_valuation = \<lparr>src = (\<lambda>_. 0), anim = (\<lambda>d s. sampler_from s)\<rparr>"

definition demo_host :: host where
  "demo_host =
     boot [''base_jnt'', ''speaker_left_jnt'', ''speaker_right_jnt'', ''planeTracker0'', ''placer'']
       (\<lambda>_. demo_transform) demo_valuation"

lift_definition linear_easing :: easing is "\<lambda>p. p"
  by simp

definition demo_signals :: "(driver_params \<times> bool) list \<Rightarrow> real \<Rightarrow> valuation" where
  "demo_signals = host_signals (\<lambda>_. linear_easing) (\<lambda>_ _. 0)"

text \<open>The dictionaries and the subscriptions of the script, for the statements below.\<close>

abbreviation pinch_dict :: "prop_signal pinch_snapshot" where
  "pinch_dict \<equiv> \<lparr>lastScaleX = Prop ''placer'' ScaleX, lastScaleY = Prop ''placer'' ScaleY,
      lastScaleZ = Prop ''placer'' ScaleZ\<rparr>"

abbreviation rotate_dict :: "prop_signal rotate_snapshot" where
  "rotate_dict \<equiv> \<lparr>lastRotationY = Prop ''placer'' RotationY\<rparr>"

abbreviation script_subs :: "subscription list" where
  "script_subs \<equiv> [PanSub ''planeTracker0'', PinchSub ''placer'' pinch_dict,
      RotateSub ''placer'' rotate_dict]"

text \<open>
  What the host captures for these subscriptions when the placer's transform is \<open>tr\<close>
  and the signals are worth \<open>v\<close>.
\<close>

abbreviation script_captures :: "valuation \<Rightarrow> transform \<Rightarrow> capture list" where
  "script_captures v tr \<equiv>
     [NoCapture,
      PinchCapture \<lparr>lastScaleX = value_of v (scaleX tr), lastScaleY = value_of v (scaleY tr),
        lastScaleZ = value_of v (scaleZ tr)\<rparr>,
      RotateCapture \<lparr>lastRotationY = value_of v (rotationY tr)\<rparr>]"

subsection \<open>The steps of the load\<close>

text \<open>
  The step of the load a host call belongs to: looking objects up, constructing
  drivers, samplers and the signals made of them, binding signals to channels,
  subscribing to gestures; and, after the load, the calls the callbacks make.
\<close>

fun phase :: "call \<Rightarrow> nat" where
  "phase (CFind _) = 0"
| "phase (CTimeDriver _) = 1"
| "phase (CStart _) = 1"
| "phase (CSampler _) = 1"
| "phase (CAnimate _ _) = 1"
| "phase (CAssign _ _ _) = 2"
| "phase (CSubscribe _) = 3"
| "phase (CTrackPoint _ _ _) = 4"


section \<open>What each host call changes\<close>

lemma find_obj_simp:
  "find_obj n h = (if n \<in> set (objects h) then Some (n, h\<lparr>calls := calls h @ [CFind n]\<rparr>) else None)"
  by (simp add: find_obj_def)

lemma timeDriver_fields [simp]:
  "fst (timeDriver p h) = length (drivers h)"
  "objects (snd (timeDriver p h)) = objects h"
  "transforms (snd (timeDriver p h)) = transforms h"
  "drivers (snd (timeDriver p h)) = drivers h @ [(p, False)]"
  "trackedPoint (snd (timeDriver p h)) = trackedPoint h"
  "subscriptions (snd (timeDriver p h)) = subscriptions h"
  "captured (snd (timeDriver p h)) = captured h"
  "now (snd (timeDriver p h)) = now h"
  "calls (snd (timeDriver p h)) = calls h @ [CTimeDriver p]"
  by (simp_all add: timeDriver_def)

lemma start_fields [simp]:
  "objects (start d h) = objects h"
  "transforms (start d h) = transforms h"
  "drivers (start d h) = (drivers h)[d := (fst (drivers h ! d), True)]"
  "trackedPoint (start d h) = trackedPoint h"
  "subscriptions (start d h) = subscriptions h"
  "captured (start d h) = captured h"
  "now (start d h) = now h"
  "calls (start d h) = calls h @ [CStart d]"
  by (simp_all add: start_def)

lemma easeInQuint_fields [simp]:
  "fst (easeInQuint a b h) = EaseInQuint a b"
  "objects (snd (easeInQuint a b h)) = objects h"
  "transforms (snd (easeInQuint a b h)) = transforms h"
  "drivers (snd (easeInQuint a b h)) = drivers h"
  "trackedPoint (snd (easeInQuint a b h)) = trackedPoint h"
  "subscriptions (snd (easeInQuint a b h)) = subscriptions h"
  "captured (snd (easeInQuint a b h)) = captured h"
  "now (snd (easeInQuint a b h)) = now h"
  "calls (snd (easeInQuint a b h)) = calls h @ [CSampler (EaseInQuint a b)]"
  by (simp_all add: easeInQuint_def)

lemma easeOutElastic_fields [simp]:
  "fst (easeOutElastic a b h) = EaseOutElastic a b"
  "objects (snd (easeOutElastic a b h)) = objects h"
  "transforms (snd (easeOutElastic a b h)) = transforms h"
  "drivers (snd (easeOutElastic a b h)) = drivers h"
  "trackedPoint (snd (easeOutElastic a b h)) = trackedPoint h"
  "subscriptions (snd (easeOutElastic a b h)) = subscriptions h"
  "captured (snd (easeOutElastic a b h)) = captured h"
  "now (snd (easeOutElastic a b h)) = now h"
  "calls (snd (easeOutElastic a b h)) = calls h @ [CSampler (EaseOutElastic a b)]"
  by (simp_all add: easeOutElastic_def)

lemma animate_fields [simp]:
  "fst (animate d s h) = Animate d s"
  "objects (snd (animate d s h)) = objects h"
  "transforms (snd (animate d s h)) = transforms h"
  "drivers (snd (animate d s h)) = drivers h"
  "trackedPoint (snd (animate d s h)) = trackedPoint h"
  "subscriptions (snd (animate d s h)) = subscriptions h"
  "captured (snd (animate d s h)) = captured h"
  "now (snd (animate d s h)) = now h"
  "calls (snd (animate d s h)) = calls h @ [CAnimate d s]"
  by (simp_all add: animate_def)

lemma assign_fields [simp]:
  "objects (assign t p s h) = objects h"
  "transforms (assign t p s h) = (transforms h)(t := set_prop p s (transforms h t))"
  "drivers (assign t p s h) = drivers h"
  "trackedPoint (assign t p s h) = trackedPoint h"
  "subscriptions (assign t p s h) = subscriptions h"
  "captured (assign t p s h) = captured h"
  "now (assign t p s h) = now h"
  "calls (assign t p s h) = calls h @ [CAssign t p s]"
  by (simp_all add: assign_def)

lemma trackPoint_fields [simp]:
  "objects (trackPoint t l s h) = objects h"
  "transforms (trackPoint t l s h) = transforms h"
  "drivers (trackPoint t l s h) = drivers h"
  "trackedPoint (trackPoint t l s h) = (trackedPoint h)(t \<mapsto> (l, s))"
  "subscriptions (trackPoint t l s h) = subscriptions h"
  "captured (trackPoint t l s h) = captured h"
  "now (trackPoint t l s h) = now h"
  "calls (trackPoint t l s h) = calls h @ [CTrackPoint t l s]"
  by (simp_all add: trackPoint_def)

lemma subscribe_fields [simp]:
  "objects (subscribe s h) = objects h"
  "transforms (subscribe s h) = transforms h"
  "drivers (subscribe s h) = drivers h"
  "trackedPoint (subscribe s h) = trackedPoint h"
  "subscriptions (subscribe s h) = subscriptions h @ [s]"
  "captured (subscribe s h) = captured h @ [NoCapture]"
  "now (subscribe s h) = now h"
  "calls (subscribe s h) = calls h @ [CSubscribe s]"
  by (simp_all add: subscribe_def)

lemma subscribeWithSnapshot_fields [simp]:
  "objects (subscribeWithSnapshot s h) = objects h"
  "transforms (subscribeWithSnapshot s h) = transforms h"
  "drivers (subscribeWithSnapshot s h) = drivers h"
  "trackedPoint (subscribeWithSnapshot s h) = trackedPoint h"
  "subscriptions (subscribeWithSnapshot s h) = subscriptions h @ [s]"
  "captured (subscribeWithSnapshot s h) = captured h @ [capture_of h s]"
  "calls (subscribeWithSnapshot s h) = calls h @ [CSubscribe s]"
  "now (subscribeWithSnapshot s h) = now h"
  by (simp_all add: subscribeWithSnapshot_def)

lemma start_new_driver [simp]:
  "d = length (drivers h) \<Longrightarrow>
     drivers (start d (snd (timeDriver p h))) = drivers h @ [(p, True)]"
  by (simp add: start_def timeDriver_def)

lemma script_fields:
  assumes "script h0 = Some h"
  shows "objects h = objects h0"
    and "trackedPoint h = trackedPoint h0"
    and "drivers h = drivers h0 @ [(baseDriverParameters, True), (speakerDriverParameters, True)]"
    and "subscriptions h = subscriptions h0 @
          [PanSub ''planeTracker0'',
           PinchSub ''placer'' \<lparr>lastScaleX = Prop ''placer'' ScaleX,
                    lastScaleY = Prop ''placer'' ScaleY,
                    lastScaleZ = Prop ''placer'' ScaleZ\<rparr>,
           RotateSub ''placer'' \<lparr>lastRotationY = Prop ''placer'' RotationY\<rparr>]"
    and "calls h = calls h0 @
       [CFind ''base_jnt'', CFind ''speaker_left_jnt'', CFind ''speaker_right_jnt'',
        CFind ''planeTracker0'', CFind ''placer'',
        CTimeDriver baseDriverParameters, CStart (length (drivers h0)),
        CTimeDriver speakerDriverParameters, CStart (Suc (length (drivers h0))),
        CSampler (EaseInQuint 0.9 1), CSampler (EaseOutElastic 0.7 0.85),
        CAnimate (length (drivers h0)) (EaseInQuint 0.9 1),
        CAnimate (Suc (length (drivers h0))) (EaseOutElastic 0.7 0.85),
        CAssign ''base_jnt'' ScaleX (Animate (length (drivers h0)) (EaseInQuint 0.9 1)),
        CAssign ''base_jnt'' ScaleY (Animate (length (drivers h0)) (EaseInQuint 0.9 1)),
        CAssign ''base_jnt'' ScaleZ (Animate (length (drivers h0)) (EaseInQuint 0.9 1)),
        CAssign ''speaker_left_jnt'' ScaleX (Animate (Suc (length (drivers h0))) (EaseOutElastic 0.7 0.85)),
        CAssign ''speaker_left_jnt'' ScaleY (Animate (Suc (length (drivers h0))) (EaseOutElastic 0.7 0.85)),
        CAssign ''speaker_left_jnt'' ScaleZ (Animate (Suc (length (drivers h0))) (EaseOutElastic 0.7 0.85)),
        CAssign ''speaker_right_jnt'' ScaleX (Animate (Suc (length (drivers h0))) (EaseOutElastic 0.7 0.85)),
        CAssign ''speaker_right_jnt'' ScaleY (Animate (Suc (length (drivers h0))) (EaseOutElastic 0.7 0.85)),
        CAssign ''speaker_right_jnt'' ScaleZ (Animate (Suc (length (drivers h0))) (EaseOutElastic 0.7 0.85)),
        CSubscribe (PanSub ''planeTracker0''),
        CSubscribe (PinchSub ''placer'' \<lparr>lastScaleX = Prop ''placer'' ScaleX,
                    lastScaleY = Prop ''placer'' ScaleY,
                    lastScaleZ = Prop ''placer'' ScaleZ\<rparr>),
        CSubscribe (RotateSub ''placer'' \<lparr>lastRotationY = Prop ''placer'' RotationY\<rparr>)]"
    and "transforms h ''base_jnt'' = (transforms h0 ''base_jnt'')
           \<lparr>scaleX := Animate (length (drivers h0)) (EaseInQuint 0.9 1),
            scaleY := Animate (length (drivers h0)) (EaseInQuint 0.9 1),
            scaleZ := Animate (length (drivers h0)) (EaseInQuint 0.9 1)\<rparr>"
    and "transforms h ''speaker_left_jnt'' = (transforms h0 ''speaker_left_jnt'')
           \<lparr>scaleX := Animate (Suc (length (drivers h0))) (EaseOutElastic 0.7 0.85),
            scaleY := Animate (Suc (length (drivers h0))) (EaseOutElastic 0.7 0.85),
            scaleZ := Animate (Suc (length (drivers h0))) (EaseOutElastic 0.7 0.85)\<rparr>"
    and "transforms h ''speaker_right_jnt'' = (transforms h0 ''speaker_right_jnt'')
           \<lparr>scaleX := Animate (Suc (length (drivers h0))) (EaseOutElastic 0.7 0.85),
            scaleY := Animate (Suc (length (drivers h0))) (EaseOutElastic 0.7 0.85),
            scaleZ := Animate (Suc (length (drivers h0))) (EaseOutElastic 0.7 0.85)\<rparr>"
    and "transforms h ''placer'' = transforms h0 ''placer''"
    and "captured h = captured h0 @ script_captures (now h0) (transforms h0 ''placer'')"
    and "now h = now h0"
  using assms
  by (auto simp add: script_def find_obj_simp Let_def case_prod_beta nth_append list_update_append
      split: if_splits)

lemma script_total:
  "set [''base_jnt'', ''speaker_left_jnt'', ''speaker_right_jnt'', ''planeTracker0'', ''placer'']
     \<subseteq> set (objects h0) \<longleftrightarrow> (\<exists>h. script h0 = Some h)"
  by (auto simp add: script_def find_obj_simp split: if_splits)


lemma pan_callback_fields [simp]:
  "objects (pan_callback pt g h) = objects h"
  "transforms (pan_callback pt g h) = transforms h"
  "drivers (pan_callback pt g h) = drivers h"
  "trackedPoint (pan_callback pt g h) = (trackedPoint h)(pt \<mapsto> (location g, state g))"
  "subscriptions (pan_callback pt g h) = subscriptions h"
  "captured (pan_callback pt g h) = captured h"
  "now (pan_callback pt g h) = now h"
  "calls (pan_callback pt g h) = calls h @ [CTrackPoint pt (location g) (state g)]"
  by (simp_all add: pan_callback_def)

lemma pinch_callback_fields [simp]:
  "objects (pinch_callback t g s h) = objects h"
  "transforms (pinch_callback t g s h) =
     (transforms h)(t := (transforms h t)
        \<lparr>scaleX := Mul (scale g) (Val (lastScaleX s)),
         scaleY := Mul (scale g) (Val (lastScaleY s)),
         scaleZ := Mul (scale g) (Val (lastScaleZ s))\<rparr>)"
  "drivers (pinch_callback t g s h) = drivers h"
  "trackedPoint (pinch_callback t g s h) = trackedPoint h"
  "subscriptions (pinch_callback t g s h) = subscriptions h"
  "captured (pinch_callback t g s h) = captured h"
  "now (pinch_callback t g s h) = now h"
  "calls (pinch_callback t g s h) = calls h @
     [CAssign t ScaleX (Mul (scale g) (Val (lastScaleX s))),
      CAssign t ScaleY (Mul (scale g) (Val (lastScaleY s))),
      CAssign t ScaleZ (Mul (scale g) (Val (lastScaleZ s)))]"
  by (simp_all add: pinch_callback_def Let_def)

lemma rotate_callback_fields [simp]:
  "objects (rotate_callback t g s h) = objects h"
  "transforms (rotate_callback t g s h) =
     (transforms h)(t := (transforms h t)
        \<lparr>rotationY := Add (Mul (rotation g) (Val (- 1))) (Val (lastRotationY s))\<rparr>)"
  "drivers (rotate_callback t g s h) = drivers h"
  "trackedPoint (rotate_callback t g s h) = trackedPoint h"
  "subscriptions (rotate_callback t g s h) = subscriptions h"
  "captured (rotate_callback t g s h) = captured h"
  "now (rotate_callback t g s h) = now h"
  "calls (rotate_callback t g s h) = calls h @
     [CAssign t RotationY (Add (Mul (rotation g) (Val (- 1))) (Val (lastRotationY s)))]"
  by (simp_all add: rotate_callback_def Let_def)


lemma deliver_script_subs:
  assumes "subscriptions h = script_subs"
      and "captured h = [NoCapture, PinchCapture ps, RotateCapture rs]"
  shows "deliver v (Pan g) h = pan_callback ''planeTracker0'' g (h\<lparr>now := v\<rparr>)"
    and "deliver v (Pinch gp) h = pinch_callback ''placer'' gp ps (h\<lparr>now := v\<rparr>)"
    and "deliver v (Rotate gr) h = rotate_callback ''placer'' gr rs (h\<lparr>now := v\<rparr>)"
  by (simp_all add: deliver_def assms)

lemma deliver_keeps:
  assumes "subscriptions h = script_subs"
      and "captured h = [NoCapture, PinchCapture ps, RotateCapture rs]"
  shows "subscriptions (deliver v e h) = script_subs"
    and "captured (deliver v e h) = [NoCapture, PinchCapture ps, RotateCapture rs]"
    and "drivers (deliver v e h) = drivers h"
    and "objects (deliver v e h) = objects h"
    and "n \<noteq> ''placer'' \<Longrightarrow> transforms (deliver v e h) n = transforms h n"
  using assms by (cases e; simp add: deliver_script_subs [OF assms])+

lemma run_keeps:
  assumes "subscriptions h = script_subs"
      and "captured h = [NoCapture, PinchCapture ps, RotateCapture rs]"
  shows "subscriptions (run es h) = script_subs \<and>
         captured (run es h) = [NoCapture, PinchCapture ps, RotateCapture rs] \<and>
         drivers (run es h) = drivers h \<and>
         objects (run es h) = objects h \<and>
         (\<forall>n. n \<noteq> ''placer'' \<longrightarrow> transforms (run es h) n = transforms h n)"
  using assms
proof (induction es arbitrary: h)
  case Nil
  then show ?case by simp
next
  case (Cons a es)
  obtain v e where a: "a = (v, e)" by (cases a)
  note k = deliver_keeps [OF Cons.prems, where v = v and e = e]
  from Cons.IH [OF k(1) k(2)] show ?case
    by (simp add: a k)
qed

lemma loaded_subs:
  assumes "script (boot objs trs v0) = Some h"
  shows "subscriptions (run es h) = script_subs"
    and "captured (run es h) = script_captures v0 (trs ''placer'')"
proof -
  have s: "subscriptions h = script_subs"
    using script_fields(4) [OF assms] by (simp add: boot_def)
  have c: "captured h = script_captures v0 (trs ''placer'')"
    using script_fields(10) [OF assms] by (simp add: boot_def)
  show "subscriptions (run es h) = script_subs"
    using run_keeps [OF s c] by blast
  show "captured (run es h) = script_captures v0 (trs ''placer'')"
    using run_keeps [OF s c] by blast
qed

section \<open>The sample session\<close>

lemma demo_loads: "script demo_host = Some (the (script demo_host))"
proof -
  have "\<exists>h. script demo_host = Some h"
    unfolding script_total [symmetric] by (simp add: demo_host_def boot_def)
  then show ?thesis by auto
qed

lemma demo_boot:
  "script (boot [''base_jnt'', ''speaker_left_jnt'', ''speaker_right_jnt'', ''planeTracker0'',
       ''placer''] (\<lambda>_. demo_transform) demo_valuation) = Some (the (script demo_host))"
  using demo_loads by (simp add: demo_host_def)

section \<open>The animation engine\<close>

lemma easing_range:
  assumes "0 \<le> p" and "p \<le> 1"
  shows "0 \<le> Rep_easing c p" and "Rep_easing c p \<le> 1"
  using Rep_easing [of c] assms by auto

lemma easing_ends: "Rep_easing c 0 = 0" "Rep_easing c 1 = 1"
  using Rep_easing [of c] by auto

lemma loop_progress_range: "0 \<le> loop_progress p t" "loop_progress p t \<le> 1"
proof -
  have "0 \<le> frac (t / durationMilliseconds p)" "frac (t / durationMilliseconds p) < 1"
    by (rule frac_ge_0, rule frac_lt_1)
  then show "0 \<le> loop_progress p t" "loop_progress p t \<le> 1"
    by (auto simp add: loop_progress_def Let_def abs_if)
qed

lemma loop_progress_period:
  assumes "durationMilliseconds p \<noteq> 0"
  shows "loop_progress p (t + durationMilliseconds p) = loop_progress p t"
proof -
  have "(t + durationMilliseconds p) / durationMilliseconds p = t / durationMilliseconds p + 1"
    using assms by (simp add: add_divide_distrib)
  then show ?thesis
    by (simp add: loop_progress_def frac_1_eq)
qed

lemma sampler_value_range:
  assumes "sampler_from s \<le> sampler_to s" and "0 \<le> p" and "p \<le> 1"
  shows "sampler_from s \<le> sampler_value c s p" and "sampler_value c s p \<le> sampler_to s"
proof -
  have e: "0 \<le> Rep_easing c p" "Rep_easing c p \<le> 1"
    using assms(2,3) by (rule easing_range)+
  have d: "0 \<le> sampler_to s - sampler_from s" using assms(1) by simp
  show "sampler_from s \<le> sampler_value c s p"
    using e(1) d by (simp add: sampler_value_def)
  have "(sampler_to s - sampler_from s) * Rep_easing c p \<le> (sampler_to s - sampler_from s) * 1"
    using e(2) d by (rule mult_left_mono)
  then show "sampler_value c s p \<le> sampler_to s"
    by (simp add: sampler_value_def)
qed

lemma looping_animation:
  assumes "loopCount p = Infinity" and "durationMilliseconds p \<noteq> 0"
      and "sampler_from s \<le> sampler_to s"
  shows "periodic_within (\<lambda>t. sampler_value c s (driver_progress (p, True) t))
           (sampler_from s) (sampler_to s) (durationMilliseconds p)"
  unfolding periodic_within_def
proof (intro allI conjI)
  fix t
  have dp: "driver_progress (p, True) u = loop_progress p u" for u
    by (simp add: driver_progress_def assms(1))
  show "sampler_from s \<le> sampler_value c s (driver_progress (p, True) t)"
    unfolding dp using assms(3) loop_progress_range by (rule sampler_value_range)
  show "sampler_value c s (driver_progress (p, True) t) \<le> sampler_to s"
    unfolding dp using assms(3) loop_progress_range by (rule sampler_value_range)
  show "sampler_value c s (driver_progress (p, True) (t + durationMilliseconds p)) =
        sampler_value c s (driver_progress (p, True) t)"
    unfolding dp by (simp add: loop_progress_period [OF assms(2)])
qed

lemma mirrored_ends:
  assumes "mirror p" and "loopCount p = Infinity" and "durationMilliseconds p \<noteq> 0"
  shows "sampler_value c s (driver_progress (p, True) 0) = sampler_from s"
    and "sampler_value c s (driver_progress (p, True) (durationMilliseconds p / 2)) = sampler_to s"
proof -
  have q: "durationMilliseconds p / 2 / durationMilliseconds p = 1 / 2"
    using assms(3) by simp
  have f: "frac (1 / 2 :: real) = 1 / 2"
    by (simp add: frac_def)
  have h: "loop_progress p (durationMilliseconds p / 2) = 1"
    unfolding loop_progress_def q f by (simp add: assms(1))
  have z: "loop_progress p 0 = 0"
    by (simp add: loop_progress_def assms(1))
  show "sampler_value c s (driver_progress (p, True) 0) = sampler_from s"
    by (simp add: driver_progress_def assms(2) z sampler_value_def easing_ends)
  show "sampler_value c s (driver_progress (p, True) (durationMilliseconds p / 2)) = sampler_to s"
    by (simp add: driver_progress_def assms(2) h sampler_value_def easing_ends)
qed

section \<open>The animated objects after load\<close>

lemma loaded_animated:
  assumes "script (boot objs trs v0) = Some h"
  shows "transforms (run es h) ''base_jnt'' = (trs ''base_jnt'')
           \<lparr>scaleX := Animate 0 (EaseInQuint 0.9 1), scaleY := Animate 0 (EaseInQuint 0.9 1),
            scaleZ := Animate 0 (EaseInQuint 0.9 1)\<rparr>"
    and "transforms (run es h) ''speaker_left_jnt'' = (trs ''speaker_left_jnt'')
           \<lparr>scaleX := Animate 1 (EaseOutElastic 0.7 0.85),
            scaleY := Animate 1 (EaseOutElastic 0.7 0.85),
            scaleZ := Animate 1 (EaseOutElastic 0.7 0.85)\<rparr>"
    and "transforms (run es h) ''speaker_right_jnt'' = (trs ''speaker_right_jnt'')
           \<lparr>scaleX := Animate 1 (EaseOutElastic 0.7 0.85),
            scaleY := Animate 1 (EaseOutElastic 0.7 0.85),
            scaleZ := Animate 1 (EaseOutElastic 0.7 0.85)\<rparr>"
    and "drivers (run es h) = [(baseDriverParameters, True), (speakerDriverParameters, True)]"
proof -
  have s: "subscriptions h = script_subs"
    using script_fields(4) [OF assms] by (simp add: boot_def)
  have c: "captured h = script_captures v0 (trs ''placer'')"
    using script_fields(10) [OF assms] by (simp add: boot_def)
  note k = run_keeps [OF s c, of es]
  show "transforms (run es h) ''base_jnt'' = (trs ''base_jnt'')
           \<lparr>scaleX := Animate 0 (EaseInQuint 0.9 1), scaleY := Animate 0 (EaseInQuint 0.9 1),
            scaleZ := Animate 0 (EaseInQuint 0.9 1)\<rparr>"
    using k script_fields(6) [OF assms] by (simp add: boot_def)
  show "transforms (run es h) ''speaker_left_jnt'' = (trs ''speaker_left_jnt'')
           \<lparr>scaleX := Animate 1 (EaseOutElastic 0.7 0.85),
            scaleY := Animate 1 (EaseOutElastic 0.7 0.85),
            scaleZ := Animate 1 (EaseOutElastic 0.7 0.85)\<rparr>"
    using k script_fields(7) [OF assms] by (simp add: boot_def)
  show "transforms (run es h) ''speaker_right_jnt'' = (trs ''speaker_right_jnt'')
           \<lparr>scaleX := Animate 1 (EaseOutElastic 0.7 0.85),
            scaleY := Animate 1 (EaseOutElastic 0.7 0.85),
            scaleZ := Animate 1 (EaseOutElastic 0.7 0.85)\<rparr>"
    using k script_fields(8) [OF assms] by (simp add: boot_def)
  show "drivers (run es h) = [(baseDriverParameters, True), (speakerDriverParameters, True)]"
    using k script_fields(3) [OF assms] by (simp add: boot_def)
qed

lemma base_signal:
  "value_of (host_signals cv sr [(baseDriverParameters, True), (speakerDriverParameters, True)] t)
     (Animate 0 s) = sampler_value (cv s) s (driver_progress (baseDriverParameters, True) t)"
  by (simp add: host_signals_def)

lemma speaker_signal:
  "value_of (host_signals cv sr [(baseDriverParameters, True), (speakerDriverParameters, True)] t)
     (Animate 1 s) = sampler_value (cv s) s (driver_progress (speakerDriverParameters, True) t)"
  by (simp add: host_signals_def)

lemma base_animation:
  "periodic_within
     (\<lambda>t. sampler_value c (EaseInQuint 0.9 1) (driver_progress (baseDriverParameters, True) t))
     0.9 1 400"
  "sampler_value c (EaseInQuint 0.9 1) (driver_progress (baseDriverParameters, True) 0) = 0.9"
  "sampler_value c (EaseInQuint 0.9 1) (driver_progress (baseDriverParameters, True) 200) = 1"
  using looping_animation [of baseDriverParameters "EaseInQuint 0.9 1" c]
    mirrored_ends [of baseDriverParameters c "EaseInQuint 0.9 1"]
  by (simp_all add: baseDriverParameters_def)

lemma speaker_animation:
  "periodic_within
     (\<lambda>t. sampler_value c (EaseOutElastic 0.7 0.85)
            (driver_progress (speakerDriverParameters, True) t))
     0.7 0.85 200"
  "sampler_value c (EaseOutElastic 0.7 0.85) (driver_progress (speakerDriverParameters, True) 0)
     = 0.7"
  "sampler_value c (EaseOutElastic 0.7 0.85) (driver_progress (speakerDriverParameters, True) 100)
     = 0.85"
  using looping_animation [of speakerDriverParameters "EaseOutElastic 0.7 0.85" c]
    mirrored_ends [of speakerDriverParameters c "EaseOutElastic 0.7 0.85"]
  by (simp_all add: speakerDriverParameters_def)

section \<open>The pinch callback\<close>

text \<open>
  Claim C1. For every pinch gesture event after load, whatever events came before it,
  the pinch callback sets each of \<open>scaleX\<close>, \<open>scaleY\<close> and \<open>scaleZ\<close> of the placer's
  transform to the gesture's scale multiplied by the value the same channel had when the
  script subscribed, which is the snapshot value \<open>lastScaleX\<close>, \<open>lastScaleY\<close> or
  \<open>lastScaleZ\<close>: the value, at the instant of the load, of what the scene binds to that
  channel of the placer.
\<close>

theorem pinch_scales_by_snapshot:
  assumes "script (boot objs trs v0) = Some h"
  shows "scaleX (transforms (deliver v (Pinch g) (run es h)) ''placer'') =
           Mul (scale g) (Val (value_of v0 (scaleX (trs ''placer'')))) \<and>
         scaleY (transforms (deliver v (Pinch g) (run es h)) ''placer'') =
           Mul (scale g) (Val (value_of v0 (scaleY (trs ''placer'')))) \<and>
         scaleZ (transforms (deliver v (Pinch g) (run es h)) ''placer'') =
           Mul (scale g) (Val (value_of v0 (scaleZ (trs ''placer''))))"
  by (simp add: deliver_script_subs [OF loaded_subs [OF assms]])

theorem pinch_scales_by_snapshot_witness:
  "script (boot [''base_jnt'', ''speaker_left_jnt'', ''speaker_right_jnt'', ''planeTracker0'',
       ''placer''] (\<lambda>_. demo_transform) demo_valuation) = Some (the (script demo_host)) \<and>
   scaleX (transforms (deliver demo_valuation (Pinch \<lparr>scale = Val 3\<rparr>)
      (run [(demo_valuation, Pinch \<lparr>scale = Val 2\<rparr>)] (the (script demo_host)))) ''placer'') =
     Mul (Val 3) (Val 1)"
  using demo_boot pinch_scales_by_snapshot [OF demo_boot, of demo_valuation
      "\<lparr>scale = Val 3\<rparr>" "[(demo_valuation, Pinch \<lparr>scale = Val 2\<rparr>)]"]
  by (simp add: demo_transform_def)

section \<open>The rotate callback\<close>

text \<open>
  Claim C2. For every rotate gesture event after load, whatever events came before it,
  the rotate callback sets \<open>rotationY\<close> of the placer's transform to the gesture's rotation
  multiplied by -1, added to the value \<open>rotationY\<close> had when the script subscribed, which
  is the snapshot value \<open>lastRotationY\<close>.
\<close>

theorem rotate_adds_negated_rotation:
  assumes "script (boot objs trs v0) = Some h"
  shows "rotationY (transforms (deliver v (Rotate g) (run es h)) ''placer'') =
           Add (Mul (rotation g) (Val (- 1)))
               (Val (value_of v0 (rotationY (trs ''placer''))))"
  by (simp add: deliver_script_subs [OF loaded_subs [OF assms]])

theorem rotate_adds_negated_rotation_witness:
  "script (boot [''base_jnt'', ''speaker_left_jnt'', ''speaker_right_jnt'', ''planeTracker0'',
       ''placer''] (\<lambda>_. demo_transform) demo_valuation) = Some (the (script demo_host)) \<and>
   rotationY (transforms (deliver demo_valuation (Rotate \<lparr>rotation = Val 3\<rparr>)
      (run [(demo_valuation, Rotate \<lparr>rotation = Val 2\<rparr>)] (the (script demo_host)))) ''placer'') =
     Add (Mul (Val 3) (Val (- 1))) (Val 0)"
  using demo_boot rotate_adds_negated_rotation [OF demo_boot, of demo_valuation
      "\<lparr>rotation = Val 3\<rparr>" "[(demo_valuation, Rotate \<lparr>rotation = Val 2\<rparr>)]"]
  by (simp add: demo_transform_def)

section \<open>The two animations\<close>

text \<open>
  Claim C3. After load, and after any gesture events, the three scale channels of
  \<open>base_jnt\<close> are bound to one signal: the animation of driver 0, a running time driver of
  400 milliseconds with infinite loop count and mirror enabled, through the ease-in-quint
  sampler from 0.9 to 1. On the host's engine, whatever its easing curves and sources,
  each of the three channels stays within 0.9 and 1 and repeats every 400 milliseconds,
  and it varies: it is 0.9 at the load and 1 after 200 milliseconds.
\<close>

theorem base_scale_animation:
  assumes "script (boot objs trs v0) = Some h"
      and "B = transforms (run es h) ''base_jnt''"
      and "V = host_signals curve sources (drivers (run es h))"
  shows "scaleX B = Animate 0 (EaseInQuint 0.9 1) \<and>
         scaleY B = Animate 0 (EaseInQuint 0.9 1) \<and>
         scaleZ B = Animate 0 (EaseInQuint 0.9 1) \<and>
         drivers (run es h) ! 0 =
           (\<lparr>durationMilliseconds = 400, loopCount = Infinity, mirror = True\<rparr>, True) \<and>
         periodic_within (\<lambda>t. value_of (V t) (scaleX B)) 0.9 1 400 \<and>
         periodic_within (\<lambda>t. value_of (V t) (scaleY B)) 0.9 1 400 \<and>
         periodic_within (\<lambda>t. value_of (V t) (scaleZ B)) 0.9 1 400 \<and>
         value_of (V 0) (scaleX B) = 0.9 \<and> value_of (V 200) (scaleX B) = 1"
proof -
  let ?A = "Animate 0 (EaseInQuint 0.9 1)"
  note l = loaded_animated [OF assms(1), of es]
  have x: "scaleX B = ?A" and y: "scaleY B = ?A" and z: "scaleZ B = ?A"
    unfolding assms(2) l(1) by simp_all
  have d: "drivers (run es h) ! 0 =
      (\<lparr>durationMilliseconds = 400, loopCount = Infinity, mirror = True\<rparr>, True)"
    unfolding l(4) by (simp add: baseDriverParameters_def)
  have v: "value_of (V t) ?A =
      sampler_value (curve (EaseInQuint 0.9 1)) (EaseInQuint 0.9 1)
        (driver_progress (baseDriverParameters, True) t)" for t
    unfolding assms(3) l(4) by (rule base_signal)
  have p: "periodic_within (\<lambda>t. value_of (V t) ?A) 0.9 1 400"
    unfolding v by (rule base_animation(1))
  have a: "value_of (V 0) ?A = 0.9" and b: "value_of (V 200) ?A = 1"
    unfolding v by (rule base_animation(2), rule base_animation(3))
  show ?thesis
    unfolding x y z by (intro conjI refl d p a b)
qed

theorem base_scale_animation_witness:
  "script (boot [''base_jnt'', ''speaker_left_jnt'', ''speaker_right_jnt'', ''planeTracker0'',
       ''placer''] (\<lambda>_. demo_transform) demo_valuation) = Some (the (script demo_host)) \<and>
   scaleX (transforms (the (script demo_host)) ''base_jnt'') = Animate 0 (EaseInQuint 0.9 1) \<and>
   periodic_within
     (\<lambda>t. value_of (demo_signals (drivers (the (script demo_host))) t)
            (scaleX (transforms (the (script demo_host)) ''base_jnt'')))
     0.9 1 400 \<and>
   value_of (demo_signals (drivers (the (script demo_host))) 200)
     (scaleX (transforms (the (script demo_host)) ''base_jnt'')) = 1"
proof -
  note t = base_scale_animation [OF demo_boot refl refl, of "[]" "\<lambda>_. linear_easing" "\<lambda>_ _. 0",
      simplified run.simps, folded demo_signals_def]
  show ?thesis
    by (intro conjI demo_boot t [THEN conjunct1]
        t [THEN conjunct2, THEN conjunct2, THEN conjunct2, THEN conjunct2, THEN conjunct1]
        t [THEN conjunct2, THEN conjunct2, THEN conjunct2, THEN conjunct2, THEN conjunct2,
           THEN conjunct2, THEN conjunct2, THEN conjunct2])
qed

text \<open>
  Claim C4. After load, and after any gesture events, the three scale channels of both
  \<open>speaker_left_jnt\<close> and \<open>speaker_right_jnt\<close> are bound to one signal: the animation of
  driver 1, a running time driver of 200 milliseconds with infinite loop count and mirror
  enabled, through the ease-out-elastic sampler from 0.7 to 0.85. On the host's engine,
  whatever its easing curves and sources, each of these channels stays within 0.7 and
  0.85 and repeats every 200 milliseconds, and it varies: it is 0.7 at the load and 0.85
  after 100 milliseconds.
\<close>

theorem speaker_scale_animation:
  assumes "script (boot objs trs v0) = Some h"
      and "V = host_signals curve sources (drivers (run es h))"
  shows "(\<forall>n \<in> {''speaker_left_jnt'', ''speaker_right_jnt''}.
           scaleX (transforms (run es h) n) = Animate 1 (EaseOutElastic 0.7 0.85) \<and>
           scaleY (transforms (run es h) n) = Animate 1 (EaseOutElastic 0.7 0.85) \<and>
           scaleZ (transforms (run es h) n) = Animate 1 (EaseOutElastic 0.7 0.85) \<and>
           periodic_within (\<lambda>t. value_of (V t) (scaleX (transforms (run es h) n))) 0.7 0.85 200 \<and>
           periodic_within (\<lambda>t. value_of (V t) (scaleY (transforms (run es h) n))) 0.7 0.85 200 \<and>
           periodic_within (\<lambda>t. value_of (V t) (scaleZ (transforms (run es h) n))) 0.7 0.85 200 \<and>
           value_of (V 0) (scaleX (transforms (run es h) n)) = 0.7 \<and>
           value_of (V 100) (scaleX (transforms (run es h) n)) = 0.85) \<and>
         drivers (run es h) ! 1 =
           (\<lparr>durationMilliseconds = 200, loopCount = Infinity, mirror = True\<rparr>, True)"
proof -
  let ?A = "Animate 1 (EaseOutElastic 0.7 0.85)"
  note l = loaded_animated [OF assms(1), of es]
  have d: "drivers (run es h) ! 1 =
      (\<lparr>durationMilliseconds = 200, loopCount = Infinity, mirror = True\<rparr>, True)"
    unfolding l(4) by (simp add: speakerDriverParameters_def)
  have v: "value_of (V t) ?A =
      sampler_value (curve (EaseOutElastic 0.7 0.85)) (EaseOutElastic 0.7 0.85)
        (driver_progress (speakerDriverParameters, True) t)" for t
    unfolding assms(2) l(4) by (rule speaker_signal)
  have p: "periodic_within (\<lambda>t. value_of (V t) ?A) 0.7 0.85 200"
    unfolding v by (rule speaker_animation(1))
  have a: "value_of (V 0) ?A = 0.7" and b: "value_of (V 100) ?A = 0.85"
    unfolding v by (rule speaker_animation(2), rule speaker_animation(3))
  have n: "scaleX (transforms (run es h) n) = ?A \<and> scaleY (transforms (run es h) n) = ?A \<and>
      scaleZ (transforms (run es h) n) = ?A"
    if "n \<in> {''speaker_left_jnt'', ''speaker_right_jnt''}" for n
    using that l(2,3) by auto
  show ?thesis
  proof (intro conjI ballI d)
    fix n :: string
    assume m: "n \<in> {''speaker_left_jnt'', ''speaker_right_jnt''}"
    note e = n [OF m]
    show "scaleX (transforms (run es h) n) = ?A" "scaleY (transforms (run es h) n) = ?A"
      "scaleZ (transforms (run es h) n) = ?A"
      using e by simp_all
    show "periodic_within (\<lambda>t. value_of (V t) (scaleX (transforms (run es h) n))) 0.7 0.85 200"
      "periodic_within (\<lambda>t. value_of (V t) (scaleY (transforms (run es h) n))) 0.7 0.85 200"
      "periodic_within (\<lambda>t. value_of (V t) (scaleZ (transforms (run es h) n))) 0.7 0.85 200"
      unfolding e [THEN conjunct1] e [THEN conjunct2, THEN conjunct1]
        e [THEN conjunct2, THEN conjunct2] by (rule p)+
    show "value_of (V 0) (scaleX (transforms (run es h) n)) = 0.7"
      "value_of (V 100) (scaleX (transforms (run es h) n)) = 0.85"
      unfolding e [THEN conjunct1] by (rule a, rule b)
  qed
qed

theorem speaker_scale_animation_witness:
  "script (boot [''base_jnt'', ''speaker_left_jnt'', ''speaker_right_jnt'', ''planeTracker0'',
       ''placer''] (\<lambda>_. demo_transform) demo_valuation) = Some (the (script demo_host)) \<and>
   scaleX (transforms (the (script demo_host)) ''speaker_left_jnt'') =
     Animate 1 (EaseOutElastic 0.7 0.85) \<and>
   periodic_within
     (\<lambda>t. value_of (demo_signals (drivers (the (script demo_host))) t)
            (scaleX (transforms (the (script demo_host)) ''speaker_right_jnt'')))
     0.7 0.85 200 \<and>
   value_of (demo_signals (drivers (the (script demo_host))) 100)
     (scaleX (transforms (the (script demo_host)) ''speaker_right_jnt'')) = 0.85"
proof -
  note t = speaker_scale_animation [OF demo_boot refl, of "[]" "\<lambda>_. linear_easing" "\<lambda>_ _. 0",
      simplified run.simps, folded demo_signals_def, THEN conjunct1]
  have l: "''speaker_left_jnt'' \<in> {''speaker_left_jnt'', ''speaker_right_jnt''}"
    by simp
  have r: "''speaker_right_jnt'' \<in> {''speaker_left_jnt'', ''speaker_right_jnt''}"
    by simp
  note tl = t [rule_format, OF l]
  note tr = t [rule_format, OF r]
  show ?thesis
    by (intro conjI demo_boot tl [THEN conjunct1]
        tr [THEN conjunct2, THEN conjunct2, THEN conjunct2, THEN conjunct1]
        tr [THEN conjunct2, THEN conjunct2, THEN conjunct2, THEN conjunct2, THEN conjunct2,
            THEN conjunct2, THEN conjunct2])
qed

section \<open>The pan callback\<close>

text \<open>
  Claim C5. For every pan gesture event after load, the pan callback calls \<open>trackPoint\<close>
  of \<open>planeTracker0\<close> with the gesture's location, and the point the plane tracker is
  told to track becomes that location.
\<close>

theorem pan_moves_tracked_point:
  assumes "script (boot objs trs v0) = Some h"
  shows "map_option fst (trackedPoint (deliver v (Pan g) (run es h)) ''planeTracker0'') =
           Some (location g) \<and>
         (\<exists>st. last (calls (deliver v (Pan g) (run es h))) =
                 CTrackPoint ''planeTracker0'' (location g) st)"
  by (simp add: deliver_script_subs [OF loaded_subs [OF assms]])

theorem pan_moves_tracked_point_witness:
  "script (boot [''base_jnt'', ''speaker_left_jnt'', ''speaker_right_jnt'', ''planeTracker0'',
       ''placer''] (\<lambda>_. demo_transform) demo_valuation) = Some (the (script demo_host)) \<and>
   map_option fst (trackedPoint
      (deliver demo_valuation (Pan \<lparr>location = (Val 10, Val 20), state = ''BEGAN''\<rparr>)
         (the (script demo_host))) ''planeTracker0'') = Some (Val 10, Val 20)"
  using demo_boot pan_moves_tracked_point [OF demo_boot, of demo_valuation
      "\<lparr>location = (Val 10, Val 20), state = ''BEGAN''\<rparr>" "[]"]
  by simp

text \<open>
  Claim C10. For every pan gesture event after load, the one call the pan callback makes
  is \<open>trackPoint\<close> of \<open>planeTracker0\<close> with both the gesture's location and the gesture's
  state, and the plane tracker holds both afterwards.
\<close>

theorem pan_passes_location_and_state:
  assumes "script (boot objs trs v0) = Some h"
  shows "calls (deliver v (Pan g) (run es h)) =
           calls (run es h) @ [CTrackPoint ''planeTracker0'' (location g) (state g)] \<and>
         trackedPoint (deliver v (Pan g) (run es h)) ''planeTracker0'' =
           Some (location g, state g)"
  by (simp add: deliver_script_subs [OF loaded_subs [OF assms]])

theorem pan_passes_location_and_state_witness:
  "script (boot [''base_jnt'', ''speaker_left_jnt'', ''speaker_right_jnt'', ''planeTracker0'',
       ''placer''] (\<lambda>_. demo_transform) demo_valuation) = Some (the (script demo_host)) \<and>
   trackedPoint
      (deliver demo_valuation (Pan \<lparr>location = (Val 10, Val 20), state = ''CHANGED''\<rparr>)
         (the (script demo_host))) ''planeTracker0'' = Some ((Val 10, Val 20), ''CHANGED'')"
  using demo_boot pan_passes_location_and_state [OF demo_boot, of demo_valuation
      "\<lparr>location = (Val 10, Val 20), state = ''CHANGED''\<rparr>" "[]"]
  by simp

section \<open>The load\<close>

text \<open>
  Claim C6. When the script loads, the host calls it makes are, in this order and each
  exactly once: the five lookups (\<open>base_jnt\<close>, \<open>speaker_left_jnt\<close>, \<open>speaker_right_jnt\<close>,
  \<open>planeTracker0\<close>, \<open>placer\<close>); the construction and start of the two drivers, the
  construction of the two samplers and of the two animation signals; the nine bindings of
  the signals to the scale channels of the three objects; the three subscriptions (pan,
  pinch, rotate). No call is made twice, each driver is started once and is running, and
  each gesture stream has one subscription.
\<close>

theorem load_sequence:
  assumes "script (boot objs trs v0) = Some h"
  shows "calls h =
       [CFind ''base_jnt'', CFind ''speaker_left_jnt'', CFind ''speaker_right_jnt'',
        CFind ''planeTracker0'', CFind ''placer''] @
       [CTimeDriver baseDriverParameters, CStart 0,
        CTimeDriver speakerDriverParameters, CStart 1,
        CSampler (EaseInQuint 0.9 1), CSampler (EaseOutElastic 0.7 0.85),
        CAnimate 0 (EaseInQuint 0.9 1), CAnimate 1 (EaseOutElastic 0.7 0.85)] @
       [CAssign ''base_jnt'' ScaleX (Animate 0 (EaseInQuint 0.9 1)),
        CAssign ''base_jnt'' ScaleY (Animate 0 (EaseInQuint 0.9 1)),
        CAssign ''base_jnt'' ScaleZ (Animate 0 (EaseInQuint 0.9 1)),
        CAssign ''speaker_left_jnt'' ScaleX (Animate 1 (EaseOutElastic 0.7 0.85)),
        CAssign ''speaker_left_jnt'' ScaleY (Animate 1 (EaseOutElastic 0.7 0.85)),
        CAssign ''speaker_left_jnt'' ScaleZ (Animate 1 (EaseOutElastic 0.7 0.85)),
        CAssign ''speaker_right_jnt'' ScaleX (Animate 1 (EaseOutElastic 0.7 0.85)),
        CAssign ''speaker_right_jnt'' ScaleY (Animate 1 (EaseOutElastic 0.7 0.85)),
        CAssign ''speaker_right_jnt'' ScaleZ (Animate 1 (EaseOutElastic 0.7 0.85))] @
       [CSubscribe (PanSub ''planeTracker0''),
        CSubscribe (PinchSub ''placer'' pinch_dict),
        CSubscribe (RotateSub ''placer'' rotate_dict)] \<and>
     map phase (calls h) = replicate 5 0 @ replicate 8 1 @ replicate 9 2 @ replicate 3 3 \<and>
     distinct (calls h) \<and>
     drivers h = [(baseDriverParameters, True), (speakerDriverParameters, True)] \<and>
     subscriptions h = script_subs"
proof -
  note f = script_fields [OF assms]
  have c: "calls h =
       [CFind ''base_jnt'', CFind ''speaker_left_jnt'', CFind ''speaker_right_jnt'',
        CFind ''planeTracker0'', CFind ''placer''] @
       [CTimeDriver baseDriverParameters, CStart 0,
        CTimeDriver speakerDriverParameters, CStart 1,
        CSampler (EaseInQuint 0.9 1), CSampler (EaseOutElastic 0.7 0.85),
        CAnimate 0 (EaseInQuint 0.9 1), CAnimate 1 (EaseOutElastic 0.7 0.85)] @
       [CAssign ''base_jnt'' ScaleX (Animate 0 (EaseInQuint 0.9 1)),
        CAssign ''base_jnt'' ScaleY (Animate 0 (EaseInQuint 0.9 1)),
        CAssign ''base_jnt'' ScaleZ (Animate 0 (EaseInQuint 0.9 1)),
        CAssign ''speaker_left_jnt'' ScaleX (Animate 1 (EaseOutElastic 0.7 0.85)),
        CAssign ''speaker_left_jnt'' ScaleY (Animate 1 (EaseOutElastic 0.7 0.85)),
        CAssign ''speaker_left_jnt'' ScaleZ (Animate 1 (EaseOutElastic 0.7 0.85)),
        CAssign ''speaker_right_jnt'' ScaleX (Animate 1 (EaseOutElastic 0.7 0.85)),
        CAssign ''speaker_right_jnt'' ScaleY (Animate 1 (EaseOutElastic 0.7 0.85)),
        CAssign ''speaker_right_jnt'' ScaleZ (Animate 1 (EaseOutElastic 0.7 0.85))] @
       [CSubscribe (PanSub ''planeTracker0''),
        CSubscribe (PinchSub ''placer'' pinch_dict),
        CSubscribe (RotateSub ''placer'' rotate_dict)]"
    using f(5) by (simp add: boot_def)
  have p: "map phase (calls h) = replicate 5 0 @ replicate 8 1 @ replicate 9 2 @ replicate 3 3"
    unfolding c by (simp add: numeral_eq_Suc)
  have d: "distinct (calls h)"
    unfolding c by (simp add: baseDriverParameters_def speakerDriverParameters_def)
  have dr: "drivers h = [(baseDriverParameters, True), (speakerDriverParameters, True)]"
    using f(3) by (simp add: boot_def)
  have su: "subscriptions h = script_subs"
    using f(4) by (simp add: boot_def)
  show ?thesis by (intro conjI c p d dr su)
qed

theorem load_sequence_witness:
  "script (boot [''base_jnt'', ''speaker_left_jnt'', ''speaker_right_jnt'', ''planeTracker0'',
       ''placer''] (\<lambda>_. demo_transform) demo_valuation) = Some (the (script demo_host)) \<and>
   map phase (calls (the (script demo_host))) =
     replicate 5 0 @ replicate 8 1 @ replicate 9 2 @ replicate 3 3 \<and>
   distinct (calls (the (script demo_host)))"
  using demo_boot load_sequence [OF demo_boot]
  by (elim conjE) (intro conjI)

section \<open>The callbacks as a whole\<close>

text \<open>
  Claim C7. The three callbacks have no condition and no error branch: for every
  gesture, every snapshot and every state of the host, the pan callback makes its one
  \<open>trackPoint\<close> call, the pinch callback its three assignments and the rotate callback its
  one assignment, and the values written are in place afterwards.
\<close>

theorem callbacks_write_unconditionally:
  "calls (pan_callback pt gp h) = calls h @ [CTrackPoint pt (location gp) (state gp)] \<and>
   calls (pinch_callback t g s h) = calls h @
     [CAssign t ScaleX (Mul (scale g) (Val (lastScaleX s))),
      CAssign t ScaleY (Mul (scale g) (Val (lastScaleY s))),
      CAssign t ScaleZ (Mul (scale g) (Val (lastScaleZ s)))] \<and>
   calls (rotate_callback t gr sr h) = calls h @
     [CAssign t RotationY (Add (Mul (rotation gr) (Val (- 1))) (Val (lastRotationY sr)))] \<and>
   trackedPoint (pan_callback pt gp h) pt = Some (location gp, state gp) \<and>
   scaleX (transforms (pinch_callback t g s h) t) = Mul (scale g) (Val (lastScaleX s)) \<and>
   scaleY (transforms (pinch_callback t g s h) t) = Mul (scale g) (Val (lastScaleY s)) \<and>
   scaleZ (transforms (pinch_callback t g s h) t) = Mul (scale g) (Val (lastScaleZ s)) \<and>
   rotationY (transforms (rotate_callback t gr sr h) t) =
     Add (Mul (rotation gr) (Val (- 1))) (Val (lastRotationY sr))"
  by simp

text \<open>
  Claim C8. After load, and after any gesture events, the scale channels of the left
  and the right speaker are bound to the same signal, so at every instant (for every
  valuation of the host's signals) the two speakers have the same scale values, and for
  each speaker and for the base the values of \<open>scaleX\<close>, \<open>scaleY\<close> and \<open>scaleZ\<close> are equal.
\<close>

theorem animated_scaling_uniform:
  assumes "script (boot objs trs v0) = Some h"
      and "L = transforms (run es h) ''speaker_left_jnt''"
      and "R = transforms (run es h) ''speaker_right_jnt''"
      and "B = transforms (run es h) ''base_jnt''"
  shows "scaleX L = scaleX R \<and> scaleY L = scaleY R \<and> scaleZ L = scaleZ R \<and>
         value_of v (scaleX L) = value_of v (scaleX R) \<and>
         value_of v (scaleY L) = value_of v (scaleY R) \<and>
         value_of v (scaleZ L) = value_of v (scaleZ R) \<and>
         value_of v (scaleX L) = value_of v (scaleY L) \<and>
         value_of v (scaleY L) = value_of v (scaleZ L) \<and>
         value_of v (scaleX R) = value_of v (scaleY R) \<and>
         value_of v (scaleY R) = value_of v (scaleZ R) \<and>
         value_of v (scaleX B) = value_of v (scaleY B) \<and>
         value_of v (scaleY B) = value_of v (scaleZ B)"
  by (simp add: assms(2-4) loaded_animated [OF assms(1)])

theorem animated_scaling_uniform_witness:
  "script (boot [''base_jnt'', ''speaker_left_jnt'', ''speaker_right_jnt'', ''planeTracker0'',
       ''placer''] (\<lambda>_. demo_transform) demo_valuation) = Some (the (script demo_host)) \<and>
   value_of (demo_signals (drivers (the (script demo_host))) 150)
     (scaleX (transforms (run [(demo_valuation, Pinch \<lparr>scale = Val 2\<rparr>)] (the (script demo_host)))
        ''speaker_left_jnt'')) =
   value_of (demo_signals (drivers (the (script demo_host))) 150)
     (scaleZ (transforms (run [(demo_valuation, Pinch \<lparr>scale = Val 2\<rparr>)] (the (script demo_host)))
        ''speaker_right_jnt''))"
  using demo_boot animated_scaling_uniform [OF demo_boot refl refl refl, of
      "[(demo_valuation, Pinch \<lparr>scale = Val 2\<rparr>)]"
      "demo_signals (drivers (the (script demo_host))) 150"]
  by metis

text \<open>
  Claim C9. After load, and after any gesture events: a pinch event leaves every
  channel of the placer's transform other than \<open>scaleX\<close>, \<open>scaleY\<close> and \<open>scaleZ\<close> as it was;
  a rotate event leaves every channel of it other than \<open>rotationY\<close> as it was; a pan event
  leaves every transform as it was; and no event changes the transform of an object
  other than the placer.
\<close>

theorem callbacks_frame:
  assumes "script (boot objs trs v0) = Some h"
  shows "(\<forall>p. p \<notin> {ScaleX, ScaleY, ScaleZ} \<longrightarrow>
            get_prop p (transforms (deliver v (Pinch g) (run es h)) ''placer'') =
            get_prop p (transforms (run es h) ''placer'')) \<and>
         (\<forall>p. p \<noteq> RotationY \<longrightarrow>
            get_prop p (transforms (deliver v (Rotate gr) (run es h)) ''placer'') =
            get_prop p (transforms (run es h) ''placer'')) \<and>
         transforms (deliver v (Pan gp) (run es h)) = transforms (run es h) \<and>
         (\<forall>n. n \<noteq> ''placer'' \<longrightarrow>
            transforms (deliver v e (run es h)) n = transforms (run es h) n)"
proof (intro conjI allI impI)
  note s = loaded_subs [OF assms, of es]
  fix p :: property
  show "get_prop p (transforms (deliver v (Pinch g) (run es h)) ''placer'') =
        get_prop p (transforms (run es h) ''placer'')" if "p \<notin> {ScaleX, ScaleY, ScaleZ}"
    using that by (cases p) (simp_all add: deliver_script_subs(2) [OF s])
  show "get_prop p (transforms (deliver v (Rotate gr) (run es h)) ''placer'') =
        get_prop p (transforms (run es h) ''placer'')" if "p \<noteq> RotationY"
    using that by (cases p) (simp_all add: deliver_script_subs(3) [OF s])
  show "transforms (deliver v (Pan gp) (run es h)) = transforms (run es h)"
    by (simp add: deliver_script_subs(1) [OF s])
  fix n :: string
  show "transforms (deliver v e (run es h)) n = transforms (run es h) n" if "n \<noteq> ''placer''"
    using that by (rule deliver_keeps(5) [OF s])
qed

theorem callbacks_frame_witness:
  "script (boot [''base_jnt'', ''speaker_left_jnt'', ''speaker_right_jnt'', ''planeTracker0'',
       ''placer''] (\<lambda>_. demo_transform) demo_valuation) = Some (the (script demo_host)) \<and>
   PosX \<notin> {ScaleX, ScaleY, ScaleZ} \<and>
   get_prop PosX (transforms (deliver demo_valuation (Pinch \<lparr>scale = Val 2\<rparr>)
      (the (script demo_host))) ''placer'') =
   get_prop PosX (transforms (the (script demo_host)) ''placer'') \<and>
   RotationX \<noteq> RotationY \<and>
   get_prop RotationX (transforms (deliver demo_valuation (Rotate \<lparr>rotation = Val 2\<rparr>)
      (the (script demo_host))) ''placer'') =
   get_prop RotationX (transforms (the (script demo_host)) ''placer'') \<and>
   ''base_jnt'' \<noteq> ''placer'' \<and>
   transforms (deliver demo_valuation (Rotate \<lparr>rotation = Val 2\<rparr>) (the (script demo_host)))
      ''base_jnt'' = transforms (the (script demo_host)) ''base_jnt''"
proof -
  note t = callbacks_frame [OF demo_boot, of demo_valuation "\<lparr>scale = Val 2\<rparr>" "[]"
      "\<lparr>rotation = Val 2\<rparr>" _ "Rotate \<lparr>rotation = Val 2\<rparr>", simplified run.simps]
  have a: "PosX \<notin> {ScaleX, ScaleY, ScaleZ}" by simp
  have b: "RotationX \<noteq> RotationY" by simp
  have c: "''base_jnt'' \<noteq> ''placer''" by simp
  note t1 = t [THEN conjunct1, rule_format, OF a]
  note t2 = t [THEN conjunct2, THEN conjunct1, rule_format, OF b]
  note t4 = t [THEN conjunct2, THEN conjunct2, THEN conjunct2, rule_format, OF c]
  show ?thesis by (intro conjI demo_boot a b c t1 t2 t4)
qed

end
